theory Spec2Isabelle
  imports Complex_Main
begin

section \<open>JavaScript strings\<close>

text \<open>
  A JavaScript string is a sequence of UTF-16 code units; \<open>length\<close>, \<open>includes\<close>,
  \<open>startsWith\<close>, \<open>endsWith\<close>, \<open>split\<close> and \<open>trim\<close> all work on code units. The
  model is a list of code units as natural numbers, so the Korean keywords of the
  classifier are written by their code units.
\<close>

type_synonym jsstring = "nat list"

definition asc :: "string \<Rightarrow> jsstring" where
  "asc s = map of_char s"

fun starts_with :: "jsstring \<Rightarrow> jsstring \<Rightarrow> bool" where
  "starts_with s [] = True"
| "starts_with [] (p # ps) = False"
| "starts_with (c # cs) (p # ps) = (c = p \<and> starts_with cs ps)"

definition ends_with :: "jsstring \<Rightarrow> jsstring \<Rightarrow> bool" where
  "ends_with s p = starts_with (rev s) (rev p)"

fun js_includes :: "jsstring \<Rightarrow> jsstring \<Rightarrow> bool" where
  "js_includes [] p = (p = [])"
| "js_includes (c # cs) p = (starts_with (c # cs) p \<or> js_includes cs p)"

definition is_space :: "nat \<Rightarrow> bool" where
  \<comment> \<open>WhiteSpace and LineTerminator of ECMAScript: what \<open>trim\<close> strips and \<open>\s\<close> matches.\<close>
  "is_space c = (c \<in> {9, 10, 11, 12, 13, 32, 160, 5760, 8232, 8233, 8239, 8287, 12288, 65279}
                 \<or> (8192 \<le> c \<and> c \<le> 8202))"

definition js_trim :: "jsstring \<Rightarrow> jsstring" where
  "js_trim s = rev (dropWhile is_space (rev (dropWhile is_space s)))"

primrec js_split :: "nat \<Rightarrow> jsstring \<Rightarrow> jsstring list" where
  "js_split d [] = [[]]"
| "js_split d (c # cs) =
     (if c = d then [] # js_split d cs
      else (case js_split d cs of [] \<Rightarrow> [[c]] | l # ls \<Rightarrow> (c # l) # ls))"

definition is_digit :: "nat \<Rightarrow> bool" where
  "is_digit c = (48 \<le> c \<and> c \<le> 57)"

definition strip_timestamp :: "jsstring \<Rightarrow> jsstring" where
  \<comment> \<open>\<open>s.replace(/^\[\d{2}:\d{2}:\d{2}\]\s*/, '')\<close>\<close>
  "strip_timestamp s =
     (case s of
        b # h1 # h2 # c1 # m1 # m2 # c2 # s1 # s2 # e # rest \<Rightarrow>
          if b = 91 \<and> is_digit h1 \<and> is_digit h2 \<and> c1 = 58 \<and> is_digit m1 \<and> is_digit m2
             \<and> c2 = 58 \<and> is_digit s1 \<and> is_digit s2 \<and> e = 93
          then dropWhile is_space rest else s
      | _ \<Rightarrow> s)"

section \<open>Pipeline steps and progress events\<close>

datatype step_id =
    Init | Processing | NewsCollection | EconomicData | PolicyAnalysis
  | SentimentAnalysis | ReportGeneration | PythonAnalyzer | Analysis | Save | Complete

datatype pstatus = Loading | Success | Error

text \<open>
  A progress event as \<open>sendProgress(stepId, label, status, message, details)\<close> builds
  it; the label, message and details are display text and are left out.
\<close>

type_synonym progress = "step_id \<times> pstatus"

datatype log_type = LogSuccess | LogError | LogWarning | LogInfo

section \<open>Keywords of the stderr classifier\<close>

definition kw_news :: jsstring where "kw_news = [45684, 49828]"
definition kw_news_tag :: jsstring where "kw_news_tag = [91, 45684, 49828, 93]"
definition kw_collect :: jsstring where "kw_collect = [49688, 51665]"
definition kw_found :: jsstring where "kw_found = [48156, 44204]"
definition kw_crawling :: jsstring where "kw_crawling = [53356, 47204, 47553]"
definition kw_API :: jsstring where "kw_API = [65, 80, 73]"
definition kw_n_collected :: jsstring where "kw_n_collected = [44060, 32, 49688, 51665]"
definition kw_done :: jsstring where "kw_done = [50756, 47308]"
definition kw_done_tag :: jsstring where "kw_done_tag = [91, 50756, 47308, 93]"
definition kw_collect_done :: jsstring where "kw_collect_done = [49688, 51665, 32, 50756, 47308]"
definition kw_start :: jsstring where "kw_start = [49884, 51089]"
definition kw_API_call :: jsstring where "kw_API_call = [65, 80, 73, 32, 54840, 52636]"
definition kw_indicator :: jsstring where "kw_indicator = [44221, 51228, 51648, 54364]"
definition kw_analysis_tag :: jsstring where "kw_analysis_tag = [91, 48516, 49437, 93]"
definition kw_ECOS :: jsstring where "kw_ECOS = [69, 67, 79, 83]"
definition kw_interest :: jsstring where "kw_interest = [44552, 47532]"
definition kw_exchange :: jsstring where "kw_exchange = [54872, 50984]"
definition kw_prices :: jsstring where "kw_prices = [47932, 44032]"
definition kw_request :: jsstring where "kw_request = [50836, 52397]"
definition kw_policy :: jsstring where "kw_policy = [51221, 52293]"
definition kw_politics :: jsstring where "kw_politics = [51221, 52824]"
definition kw_government :: jsstring where "kw_government = [51221, 48512]"
definition kw_analysing :: jsstring where "kw_analysing = [48516, 49437, 32, 51473]"
definition kw_sentiment :: jsstring where "kw_sentiment = [44048, 51221, 32, 48516, 49437]"
definition kw_AI :: jsstring where "kw_AI = [65, 73]"
definition kw_GPT :: jsstring where "kw_GPT = [71, 80, 84]"
definition kw_OpenAI :: jsstring where "kw_OpenAI = [79, 112, 101, 110, 65, 73]"
definition kw_AI_tag :: jsstring where "kw_AI_tag = [91, 65, 73, 93]"
definition kw_analysis_done :: jsstring where "kw_analysis_done = [48516, 49437, 32, 50756, 47308]"
definition kw_cache :: jsstring where "kw_cache = [52880, 49884]"
definition kw_sentiment_done :: jsstring where
  "kw_sentiment_done = [44048, 51221, 32, 48516, 49437, 32, 50756, 47308]"
definition kw_report :: jsstring where "kw_report = [47532, 54252, 53944]"
definition kw_report2 :: jsstring where "kw_report2 = [48372, 44256, 49436]"
definition kw_generate :: jsstring where "kw_generate = [49373, 49457]"
definition kw_outlook :: jsstring where "kw_outlook = [51204, 47581]"
definition kw_all_done :: jsstring where
  "kw_all_done = [47784, 46304, 32, 48516, 49437, 51060, 32, 50756, 47308]"
definition kw_python_done :: jsstring where
  "kw_python_done = [80, 121, 116, 104, 111, 110, 32, 48516, 49437, 44592, 32, 49892, 54665,
                     32, 50756, 47308]"
definition kw_generating :: jsstring where "kw_generating = [49373, 49457, 32, 51473]"
definition kw_check_mark :: jsstring where "kw_check_mark = [9989]"
definition kw_cross_mark :: jsstring where "kw_cross_mark = [10060]"
definition kw_error_tag :: jsstring where "kw_error_tag = [91, 50724, 47448, 93]"
definition kw_fail :: jsstring where "kw_fail = [49892, 54056]"
definition kw_error :: jsstring where "kw_error = [50724, 47448]"
definition kw_warning_sign :: jsstring where "kw_warning_sign = [9888, 65039]"
definition kw_caution_tag :: jsstring where "kw_caution_tag = [91, 51452, 51032, 93]"
definition kw_warning :: jsstring where "kw_warning = [44221, 44256]"

section \<open>The stderr line classifier of runPythonAnalyzer\<close>

definition log_type_of :: "jsstring \<Rightarrow> log_type" where
  "log_type_of l =
     (if js_includes l kw_done \<or> js_includes l kw_check_mark \<or> js_includes l kw_done_tag
      then LogSuccess
      else if js_includes l kw_cross_mark \<or> js_includes l kw_error_tag
              \<or> js_includes l kw_fail \<or> js_includes l kw_error
      then LogError
      else if js_includes l kw_warning_sign \<or> js_includes l kw_caution_tag
              \<or> js_includes l kw_warning
      then LogWarning
      else LogInfo)"

text \<open>
  The if / else-if chain on one cleaned line: for each of the five blocks, the condition
  that enters it, and what its body does: the progress event sent by \<open>sendProgress\<close>
  (if any) and the new value of \<open>currentActiveStep\<close>.
\<close>

definition news_line :: "jsstring \<Rightarrow> bool" where
  "news_line l =
     ((js_includes l kw_news \<or> js_includes l kw_news_tag) \<and>
      (js_includes l kw_collect \<or> js_includes l kw_found \<or> js_includes l kw_crawling
       \<or> js_includes l kw_API \<or> js_includes l kw_n_collected))"

definition news_block :: "jsstring \<Rightarrow> progress option \<times> step_id" where
  "news_block l =
     (if js_includes l kw_done \<or> js_includes l kw_done_tag \<or> js_includes l kw_collect_done
      then (Some (NewsCollection, Success), EconomicData)
      else if js_includes l kw_start \<or> js_includes l kw_API_call
      then (Some (NewsCollection, Loading), NewsCollection)
      else (None, NewsCollection))"

definition economic_line :: "jsstring \<Rightarrow> bool" where
  "economic_line l =
     ((js_includes l kw_indicator \<or> js_includes l kw_analysis_tag) \<and>
      (js_includes l kw_ECOS \<or> js_includes l kw_interest \<or> js_includes l kw_exchange
       \<or> js_includes l kw_prices \<or> js_includes l kw_collect))"

definition economic_block :: "jsstring \<Rightarrow> progress option \<times> step_id" where
  "economic_block l =
     (if js_includes l kw_done \<or> js_includes l kw_done_tag
      then (Some (EconomicData, Success), PolicyAnalysis)
      else if js_includes l kw_start \<or> js_includes l kw_request
      then (Some (EconomicData, Loading), EconomicData)
      else (None, EconomicData))"

definition policy_line :: "jsstring \<Rightarrow> bool" where
  "policy_line l =
     (js_includes l kw_policy \<or> js_includes l kw_politics \<or> js_includes l kw_government)"

definition policy_block :: "jsstring \<Rightarrow> progress option \<times> step_id" where
  "policy_block l =
     (if js_includes l kw_done \<or> js_includes l kw_done_tag
      then (Some (PolicyAnalysis, Success), SentimentAnalysis)
      else if js_includes l kw_start \<or> js_includes l kw_analysing
      then (Some (PolicyAnalysis, Loading), PolicyAnalysis)
      else (None, PolicyAnalysis))"

definition sentiment_line :: "jsstring \<Rightarrow> bool" where
  "sentiment_line l =
     (js_includes l kw_sentiment \<or> js_includes l kw_AI \<or> js_includes l kw_GPT
      \<or> js_includes l kw_OpenAI \<or> js_includes l kw_AI_tag
      \<or> js_includes l kw_analysis_done \<or> js_includes l kw_API_call
      \<or> js_includes l kw_cache)"

definition sentiment_block :: "jsstring \<Rightarrow> progress option \<times> step_id" where
  "sentiment_block l =
     (if js_includes l kw_sentiment_done \<or> js_includes l kw_analysis_done
         \<or> js_includes l kw_done_tag
      then (Some (SentimentAnalysis, Success), ReportGeneration)
      else if js_includes l kw_start \<or> js_includes l kw_API_call
      then (Some (SentimentAnalysis, Loading), SentimentAnalysis)
      else (None, SentimentAnalysis))"

definition report_line :: "jsstring \<Rightarrow> bool" where
  "report_line l =
     (js_includes l kw_report \<or> js_includes l kw_report2 \<or> js_includes l kw_generate
      \<or> js_includes l kw_outlook \<or> js_includes l kw_all_done
      \<or> js_includes l kw_python_done)"

definition report_block :: "jsstring \<Rightarrow> progress option \<times> step_id" where
  "report_block l =
     (if js_includes l kw_python_done \<or> js_includes l kw_all_done
         \<or> js_includes l kw_done_tag
      then (Some (ReportGeneration, Success), ReportGeneration)
      else if js_includes l kw_start \<or> js_includes l kw_generating
      then (Some (ReportGeneration, Loading), ReportGeneration)
      else (None, ReportGeneration))"

definition classify :: "jsstring \<Rightarrow> step_id \<Rightarrow> progress option \<times> step_id" where
  "classify l cur =
     (if news_line l then news_block l
      else if economic_line l then economic_block l
      else if policy_line l then policy_block l
      else if sentiment_line l then sentiment_block l
      else if report_line l then report_block l
      else (None, cur))"

text \<open>
  One line of a stderr chunk: \<open>None\<close> is the \<open>continue\<close> of the loop (nothing is sent);
  otherwise the type of the realtime-log entry and the progress event, if any.
\<close>

definition stderr_line ::
  "jsstring \<Rightarrow> step_id \<Rightarrow> (log_type \<times> progress option) option \<times> step_id" where
  "stderr_line line cur =
     (let trimmedLine = js_trim line in
      if trimmedLine = [] \<or> length trimmedLine < 5 then (None, cur)
      else
        (let cleanLine = strip_timestamp trimmedLine;
             (ev, cur') = classify cleanLine cur
         in (Some (log_type_of cleanLine, ev), cur')))"

fun stderr_lines :: "jsstring list \<Rightarrow> step_id \<Rightarrow> progress list \<times> step_id" where
  "stderr_lines [] cur = ([], cur)"
| "stderr_lines (l # ls) cur =
     (case stderr_line l cur of
        (Some (_, Some ev), cur') \<Rightarrow> (let (evs, c) = stderr_lines ls cur' in (ev # evs, c))
      | (_, cur') \<Rightarrow> stderr_lines ls cur')"

definition stderr_chunk :: "jsstring \<Rightarrow> step_id \<Rightarrow> progress list \<times> step_id" where
  "stderr_chunk text cur = stderr_lines (js_split 10 text) cur"


subsection \<open>The classifier as an ordered rule table\<close>

text \<open>
  The specification describes the classifier as an ordered table of per-stage keyword
  rules of which the first match wins: a rule matches a line that has a word of the
  stage's vocabulary (and, where the stage asks for one, a word of its context); the
  matching rule reports success on a completion marker, loading on a start marker, and
  nothing otherwise. This is that table, to be compared with \<open>classify\<close>.
\<close>

definition any_of :: "jsstring \<Rightarrow> jsstring list \<Rightarrow> bool" where
  "any_of l ks = list_ex (js_includes l) ks"

record stage_rule =
  rule_stage :: step_id
  rule_vocabulary :: "jsstring list"
  rule_context :: "jsstring list"
  rule_done :: "jsstring list"
  rule_next :: step_id
  rule_started :: "jsstring list"

definition news_rule :: stage_rule where
  "news_rule =
     \<lparr>rule_stage = NewsCollection,
      rule_vocabulary = [kw_news, kw_news_tag],
      rule_context = [kw_collect, kw_found, kw_crawling, kw_API, kw_n_collected],
      rule_done = [kw_done, kw_done_tag, kw_collect_done],
      rule_next = EconomicData,
      rule_started = [kw_start, kw_API_call]\<rparr>"

definition economic_rule :: stage_rule where
  "economic_rule =
     \<lparr>rule_stage = EconomicData,
      rule_vocabulary = [kw_indicator, kw_analysis_tag],
      rule_context = [kw_ECOS, kw_interest, kw_exchange, kw_prices, kw_collect],
      rule_done = [kw_done, kw_done_tag],
      rule_next = PolicyAnalysis,
      rule_started = [kw_start, kw_request]\<rparr>"

definition policy_rule :: stage_rule where
  "policy_rule =
     \<lparr>rule_stage = PolicyAnalysis,
      rule_vocabulary = [kw_policy, kw_politics, kw_government],
      rule_context = [],
      rule_done = [kw_done, kw_done_tag],
      rule_next = SentimentAnalysis,
      rule_started = [kw_start, kw_analysing]\<rparr>"

definition sentiment_rule :: stage_rule where
  "sentiment_rule =
     \<lparr>rule_stage = SentimentAnalysis,
      rule_vocabulary = [kw_sentiment, kw_AI, kw_GPT, kw_OpenAI, kw_AI_tag, kw_analysis_done,
                         kw_API_call, kw_cache],
      rule_context = [],
      rule_done = [kw_sentiment_done, kw_analysis_done, kw_done_tag],
      rule_next = ReportGeneration,
      rule_started = [kw_start, kw_API_call]\<rparr>"

definition report_rule :: stage_rule where
  "report_rule =
     \<lparr>rule_stage = ReportGeneration,
      rule_vocabulary = [kw_report, kw_report2, kw_generate, kw_outlook, kw_all_done,
                         kw_python_done],
      rule_context = [],
      rule_done = [kw_python_done, kw_all_done, kw_done_tag],
      rule_next = ReportGeneration,
      rule_started = [kw_start, kw_generating]\<rparr>"

definition stage_rules :: "stage_rule list" where
  "stage_rules = [news_rule, economic_rule, policy_rule, sentiment_rule, report_rule]"

definition rule_matches :: "jsstring \<Rightarrow> stage_rule \<Rightarrow> bool" where
  "rule_matches l r =
     (any_of l (rule_vocabulary r) \<and> (rule_context r = [] \<or> any_of l (rule_context r)))"

definition rule_outcome :: "stage_rule \<Rightarrow> jsstring \<Rightarrow> progress option \<times> step_id" where
  "rule_outcome r l =
     (if any_of l (rule_done r) then (Some (rule_stage r, Success), rule_next r)
      else if any_of l (rule_started r) then (Some (rule_stage r, Loading), rule_stage r)
      else (None, rule_stage r))"

definition classify_by_table :: "jsstring \<Rightarrow> step_id \<Rightarrow> progress option \<times> step_id" where
  "classify_by_table l cur =
     (case find (rule_matches l) stage_rules of
        None \<Rightarrow> (None, cur)
      | Some r \<Rightarrow> rule_outcome r l)"

section \<open>JSON values and the JavaScript built-ins\<close>

datatype json =
    JUndefined | JNull | JBool bool | JNum real | JStr jsstring
  | JArr "json list" | JObj "(jsstring \<times> json) list"

fun truthy :: "json \<Rightarrow> bool" where
  "truthy JUndefined = False"
| "truthy JNull = False"
| "truthy (JBool b) = b"
| "truthy (JNum r) = (r \<noteq> 0)"
| "truthy (JStr s) = (s \<noteq> [])"
| "truthy (JArr xs) = True"
| "truthy (JObj kvs) = True"

fun get_field :: "json \<Rightarrow> jsstring \<Rightarrow> json" where
  \<comment> \<open>property read \<open>v.k\<close> on a value that is neither null nor undefined\<close>
  "get_field (JObj kvs) k = (case map_of kvs k of None \<Rightarrow> JUndefined | Some v \<Rightarrow> v)"
| "get_field v k = JUndefined"

fun is_array :: "json \<Rightarrow> bool" where
  "is_array (JArr xs) = True"
| "is_array v = False"

fun array_items :: "json \<Rightarrow> json list" where
  "array_items (JArr xs) = xs"
| "array_items v = []"

text \<open>
  The built-ins of the runtime and of the mongodb driver that the code calls and that are
  not part of the repository are parameters of the model. \<open>None\<close> is an exception
  for \<open>JSON_parse\<close> (SyntaxError) and \<open>Array_from\<close> (TypeError), and \<open>NaN\<close> for
  \<open>parseFloat\<close> and \<open>parseInt\<close>.
\<close>

record js_env =
  JSON_parse :: "jsstring \<Rightarrow> json option"
  parseFloat :: "json \<Rightarrow> real option"
  parseInt :: "json \<Rightarrow> int option"
  Array_from :: "json \<Rightarrow> json list option"
  ObjectId_isValid :: "json \<Rightarrow> bool"
  ObjectId_of :: "json \<Rightarrow> nat"

section \<open>The worker supervisor: runPythonAnalyzer\<close>

datatype failure = Timeout | ExitFailure "int option" | ProcessError | PrepareError

datatype worker_result = WSuccess json | WFailure failure

text \<open>
  What the Node event loop delivers to the handlers that \<open>runPythonAnalyzer\<close>
  registers: data on the two streams, \<open>close\<close> with the exit code (\<open>None\<close> is the
  \<open>null\<close> code of a process ended by a signal), \<open>error\<close>, and the expiry of the two
  300 second timers. Handlers run one at a time, so a run is a list of these events in
  the order in which they are handled.
\<close>

datatype wevent =
    StdoutData jsstring | StderrData jsstring | Close "int option" | ProcError
  | Timeout1 | Timeout2

datatype job_status = Pending | InProgress | Completed | Failed

datatype log_level = INFO | ERROR

datatype sentiment = Positive | Negative | Neutral

datatype req_id = ClientId json | GeneratedId nat

record analysis =
  positive_count :: nat
  negative_count :: nat
  neutral_count :: nat
  overall_sentiment :: sentiment
  overall_score :: real
  confidence_score :: real
  total_news_count :: nat
  analyzed_news_count :: nat
  news_data :: "json list"
  analyzed_news :: "json list"
  significant_news :: "json list"

record request_doc =
  stock_name :: json
  start_date :: int
  end_date :: int
  status :: job_status
  created_at :: nat
  updated_at :: nat
  completed_at :: "nat option"

text \<open>
  The effects of a run, in the order in which they happen: a progress event sent to the
  room of the request, a signal sent to the worker, a write to the store, the HTTP
  response (status code and, when the body carries one, the request id).
\<close>

datatype action =
    Emit progress
  | Kill
  | InsertRequest nat request_doc
  | UpdateStatus nat job_status "nat option" nat
  | SaveResults nat analysis
  | SaveNews nat "json list"
  | SaveIndicators nat
  | AddLog nat log_level
  | Respond nat "req_id option"

text \<open>
  The state of one call of \<open>runPythonAnalyzer\<close>: its local variables, whether each of
  the two timers is still pending, every call of the promise's \<open>resolve\<close> in order, and
  the effects so far. Both calls of \<open>kill\<close> send SIGTERM (the default signal), so one
  \<open>Kill\<close> action stands for either. Not modelled: the console and logger output, the
  \<open>realtime-log\<close> events (only their type is computed, in \<open>stderr_line\<close>), and the
  outer \<open>catch\<close> of the close handler, which nothing in its \<open>try\<close> block reaches
  since the \<open>JSON.parse\<close> errors are caught inside the loop.
\<close>

record sup =
  processFinished :: bool
  timer1 :: bool
  timer2 :: bool
  stdout :: jsstring
  stderr :: jsstring
  currentActiveStep :: step_id
  resolved :: "worker_result list"
  acts :: "action list"

definition emit :: "bool \<Rightarrow> progress \<Rightarrow> action list" where
  \<comment> \<open>\<open>if (sendProgress) sendProgress(...)\<close>\<close>
  "emit sp p = (if sp then [Emit p] else [])"

definition resolve :: "worker_result \<Rightarrow> sup \<Rightarrow> sup" where
  \<comment> \<open>a call of the promise's \<open>resolve\<close>; the calls are kept in order\<close>
  "resolve r s = s\<lparr>resolved := resolved s @ [r]\<rparr>"

definition settled :: "sup \<Rightarrow> worker_result option" where
  \<comment> \<open>a promise keeps the value of the first call of \<open>resolve\<close> and ignores the later ones\<close>
  "settled s = (case resolved s of [] \<Rightarrow> None | r # _ \<Rightarrow> Some r)"

fun find_json :: "js_env \<Rightarrow> jsstring list \<Rightarrow> json option" where
  \<comment> \<open>the loop over the lines of stdout, with its \<open>break\<close> at the first line that parses\<close>
  "find_json env [] = None"
| "find_json env (l # ls) =
     (let trimmedLine = js_trim l in
      if starts_with trimmedLine [123] \<and> ends_with trimmedLine [125]
      then (case JSON_parse env trimmedLine of
              Some v \<Rightarrow> Some v
            | None \<Rightarrow> find_json env ls)
      else find_json env ls)"

definition default_data :: json where
  \<comment> \<open>the object built when no JSON line was found\<close>
  "default_data =
     JObj [(asc ''analyzed_news'', JArr []), (asc ''news_data'', JArr []),
           (asc ''significant_news'', JArr []), (asc ''indicators_data'', JObj []),
           (asc ''report'',
            JStr [80, 121, 116, 104, 111, 110, 32, 48516, 49437, 32, 50756, 47308, 32, 40, 74,
                  83, 79, 78, 32, 52636, 47141, 32, 50630, 51020, 41])]"

definition final_emits :: "action list" where
  "final_emits =
     [Emit (EconomicData, Success), Emit (PolicyAnalysis, Success),
      Emit (ReportGeneration, Success), Emit (Complete, Success)]"

definition on_close :: "js_env \<Rightarrow> bool \<Rightarrow> int option \<Rightarrow> sup \<Rightarrow> sup" where
  "on_close env sp code s =
     (if processFinished s then s
      else
        (let s1 = s\<lparr>processFinished := True, timer1 := False\<rparr> in
         if code = Some 0 then
           (let jsonResult =
                  (case find_json env (js_split 10 (stdout s1)) of
                     None \<Rightarrow> JNull | Some v \<Rightarrow> v)
            in if truthy jsonResult
               then resolve (WSuccess jsonResult)
                      (s1\<lparr>acts := acts s1 @ (if sp then final_emits else [])\<rparr>)
               else resolve (WSuccess default_data)
                      (s1\<lparr>acts := acts s1 @ (if sp then final_emits else [])\<rparr>))
         else resolve (WFailure (ExitFailure code)) s1))"

definition on_event :: "js_env \<Rightarrow> bool \<Rightarrow> wevent \<Rightarrow> sup \<Rightarrow> sup" where
  "on_event env sp e s =
     (case e of
        StdoutData d \<Rightarrow> s\<lparr>stdout := stdout s @ d\<rparr>
      | StderrData d \<Rightarrow>
          (let s1 = s\<lparr>stderr := stderr s @ d\<rparr> in
           if sp \<and> \<not> processFinished s1 then
             (let (evs, c) = stderr_chunk d (currentActiveStep s1)
              in s1\<lparr>currentActiveStep := c, acts := acts s1 @ map Emit evs\<rparr>)
           else s1)
      | Close code \<Rightarrow> on_close env sp code s
      | ProcError \<Rightarrow> resolve (WFailure ProcessError) s
      | Timeout1 \<Rightarrow>
          (if \<not> timer1 s then s
           else
             (let s1 = s\<lparr>timer1 := False\<rparr> in
              if \<not> processFinished s1
              then resolve (WFailure Timeout)
                     (s1\<lparr>acts := acts s1 @ [Kill], processFinished := True\<rparr>)
              else s1))
      | Timeout2 \<Rightarrow>
          (if \<not> timer2 s then s
           else resolve (WFailure Timeout) (s\<lparr>timer2 := False, acts := acts s @ [Kill]\<rparr>)))"

definition sup_start :: "bool \<Rightarrow> sup" where
  \<comment> \<open>after \<open>spawn\<close> returned: both timers armed, nothing read yet\<close>
  "sup_start sp =
     \<lparr>processFinished = False, timer1 = True, timer2 = True, stdout = [], stderr = [],
      currentActiveStep = NewsCollection, resolved = [],
      acts = emit sp (PythonAnalyzer, Loading)\<rparr>"

definition sup_failed_start :: "bool \<Rightarrow> sup" where
  \<comment> \<open>\<open>spawn\<close> threw: the \<open>catch\<close> resolves, no handler and no timer exists\<close>
  "sup_failed_start sp =
     \<lparr>processFinished = False, timer1 = False, timer2 = False, stdout = [], stderr = [],
      currentActiveStep = NewsCollection, resolved = [WFailure PrepareError],
      acts = emit sp (PythonAnalyzer, Loading)\<rparr>"

definition run_events :: "js_env \<Rightarrow> bool \<Rightarrow> wevent list \<Rightarrow> sup \<Rightarrow> sup" where
  "run_events env sp es s = foldl (\<lambda>s e. on_event env sp e s) s es"

definition runPythonAnalyzer :: "js_env \<Rightarrow> bool \<Rightarrow> bool \<Rightarrow> wevent list \<Rightarrow> sup" where
  "runPythonAnalyzer env sp spawn_ok es =
     (if spawn_ok then run_events env sp es (sup_start sp) else sup_failed_start sp)"

fun run_until_settled :: "js_env \<Rightarrow> bool \<Rightarrow> wevent list \<Rightarrow> sup \<Rightarrow> sup" where
  \<comment> \<open>the run as the awaiting caller sees it: up to the event that settles the promise\<close>
  "run_until_settled env sp [] s = s"
| "run_until_settled env sp (e # es) s =
     (if resolved s \<noteq> [] then s else run_until_settled env sp es (on_event env sp e s))"

definition awaitPythonAnalyzer :: "js_env \<Rightarrow> bool \<Rightarrow> bool \<Rightarrow> wevent list \<Rightarrow> sup" where
  "awaitPythonAnalyzer env sp spawn_ok es =
     (if spawn_ok then run_until_settled env sp es (sup_start sp) else sup_failed_start sp)"

section \<open>collectAndAnalyzeStock\<close>

text \<open>
  Numbers are the real values of the doubles. The rounding of the running sum and of the
  average, the infinities, and NaN as the result of an addition are not modelled. The
  log lines and the \<open>realtime-log\<close> events are left out.
\<close>

datatype error = TypeError | AnalysisFailed failure

definition double_0_1 :: real where
  \<comment> \<open>the value of the double that the literal \<open>0.1\<close> denotes\<close>
  "double_0_1 = 3602879701896397 / 36028797018963968"

record tally =
  positiveCount :: nat
  negativeCount :: nat
  neutralCount :: nat
  totalSentimentScore :: real
  validScoreCount :: nat

definition score_or_zero :: "js_env \<Rightarrow> json \<Rightarrow> real" where
  \<comment> \<open>\<open>parseFloat(news.score) || 0\<close> for a \<open>news\<close> that is neither null nor undefined:
      NaN becomes 0\<close>
  "score_or_zero env news =
     (case parseFloat env (get_field news (asc ''score'')) of None \<Rightarrow> 0 | Some r \<Rightarrow> r)"

definition news_score :: "js_env \<Rightarrow> json \<Rightarrow> real option" where
  \<comment> \<open>\<open>None\<close> is the TypeError of reading a property of \<open>null\<close> or \<open>undefined\<close>.
      The score is never NaN, so the \<open>isNaN\<close> branch of the loop body is not reached.\<close>
  "news_score env news =
     (if news = JNull \<or> news = JUndefined then None else Some (score_or_zero env news))"

definition tally_step :: "real \<Rightarrow> tally \<Rightarrow> tally" where
  "tally_step score t =
     (let t1 = t\<lparr>totalSentimentScore := totalSentimentScore t + score,
                 validScoreCount := validScoreCount t + 1\<rparr>
      in if score > double_0_1 then t1\<lparr>positiveCount := positiveCount t1 + 1\<rparr>
         else if score < - double_0_1 then t1\<lparr>negativeCount := negativeCount t1 + 1\<rparr>
         else t1\<lparr>neutralCount := neutralCount t1 + 1\<rparr>)"

fun tally_news :: "js_env \<Rightarrow> json list \<Rightarrow> tally \<Rightarrow> tally option" where
  "tally_news env [] t = Some t"
| "tally_news env (news # rest) t =
     (case news_score env news of
        None \<Rightarrow> None
      | Some score \<Rightarrow> tally_news env rest (tally_step score t))"

definition tally0 :: tally where
  "tally0 = \<lparr>positiveCount = 0, negativeCount = 0, neutralCount = 0,
             totalSentimentScore = 0, validScoreCount = 0\<rparr>"

definition analyze_payload :: "js_env \<Rightarrow> json \<Rightarrow> analysis option" where
  \<comment> \<open>the success branch up to the returned object; \<open>None\<close> is a thrown TypeError.
      The report text, the indicators and the policy impact are left out.\<close>
  "analyze_payload env result =
     (if result = JNull \<or> result = JUndefined then None
      else
        (case (if is_array (get_field result (asc ''analyzed_news''))
               then Some (array_items (get_field result (asc ''analyzed_news'')))
               else Array_from env (get_field result (asc ''analyzed_news''))) of
           None \<Rightarrow> None
         | Some analyzedNews \<Rightarrow>
             (let newsData = (if is_array (get_field result (asc ''news_data''))
                              then array_items (get_field result (asc ''news_data'')) else []);
                  significantNews =
                    (if is_array (get_field result (asc ''significant_news''))
                     then array_items (get_field result (asc ''significant_news'')) else [])
              in case tally_news env analyzedNews tally0 of
                   None \<Rightarrow> None
                 | Some t \<Rightarrow>
                     (let avgSentiment =
                            (if validScoreCount t > 0
                             then totalSentimentScore t / real (validScoreCount t) else 0);
                          overallSentiment =
                            (if avgSentiment > double_0_1 then Positive
                             else if avgSentiment < - double_0_1 then Negative else Neutral);
                          confidenceScore = min 1 (real (length analyzedNews) / 10)
                      in Some \<lparr>positive_count = positiveCount t,
                               negative_count = negativeCount t,
                               neutral_count = neutralCount t,
                               overall_sentiment = overallSentiment,
                               overall_score = \<bar>avgSentiment\<bar>,
                               confidence_score = confidenceScore,
                               total_news_count = length newsData,
                               analyzed_news_count = length analyzedNews,
                               news_data = newsData,
                               analyzed_news = analyzedNews,
                               significant_news = significantNews\<rparr>))))"

definition collectAndAnalyzeStock ::
  "js_env \<Rightarrow> bool \<Rightarrow> bool \<Rightarrow> wevent list \<Rightarrow> action list \<times> (error + analysis) option" where
  \<comment> \<open>\<open>sp\<close>: a \<open>sendProgress\<close> function was passed. The result is \<open>None\<close> while the
      worker's promise is not settled.\<close>
  "collectAndAnalyzeStock env sp spawn_ok es =
     (let s = awaitPythonAnalyzer env sp spawn_ok es in
      case settled s of
        None \<Rightarrow> (acts s, None)
      | Some (WSuccess result) \<Rightarrow>
          (case analyze_payload env result of
             None \<Rightarrow> (acts s @ emit sp (PythonAnalyzer, Error), Some (Inl TypeError))
           | Some a \<Rightarrow>
               if sp then (acts s @ [Emit (PythonAnalyzer, Success)], Some (Inr a))
               else (acts s, Some (Inl TypeError)))
      | Some (WFailure f) \<Rightarrow>
          (acts s @ emit sp (PythonAnalyzer, Error) @ emit sp (PythonAnalyzer, Error),
           Some (Inl (AnalysisFailed f))))"

section \<open>The store\<close>

text \<open>
  The collections of the database that the handler touches, as maps from ObjectIds
  (natural numbers here) to documents. Every call is taken to reach the database; of the
  driver's errors only the duplicate key of \<open>insertOne\<close> and a failure of one of the
  writes of \<open>saveAnalysisToDatabase\<close> are modelled.
\<close>

record db =
  requests :: "nat \<rightharpoonup> request_doc"
  results :: "nat \<rightharpoonup> analysis"
  news :: "(nat \<times> json) list"
  logs :: "(nat \<times> log_level) list"

fun apply_action :: "action \<Rightarrow> db \<Rightarrow> db" where
  "apply_action (InsertRequest k doc) d = d\<lparr>requests := (requests d)(k \<mapsto> doc)\<rparr>"
| "apply_action (UpdateStatus k st c t) d =
     (case requests d k of
        None \<Rightarrow> d
      | Some doc \<Rightarrow>
          d\<lparr>requests := (requests d)(k \<mapsto>
               doc\<lparr>status := st, updated_at := t,
                   completed_at := (case c of None \<Rightarrow> completed_at doc | Some x \<Rightarrow> Some x)\<rparr>)\<rparr>)"
| "apply_action (SaveResults k a) d = d\<lparr>results := (results d)(k \<mapsto> a)\<rparr>"
| "apply_action (SaveNews k items) d = d\<lparr>news := news d @ map (Pair k) items\<rparr>"
| "apply_action (AddLog k lvl) d = d\<lparr>logs := logs d @ [(k, lvl)]\<rparr>"
| "apply_action (Emit p) d = d"
| "apply_action Kill d = d"
| "apply_action (SaveIndicators k) d = d"
| "apply_action (Respond c r) d = d"

definition exec :: "action list \<Rightarrow> db \<Rightarrow> db" where
  "exec tr d = foldl (\<lambda>d a. apply_action a d) d tr"

datatype db_error = DuplicateKey | InvalidRequestId

record body =
  stockName :: json
  daysBack :: json
  requestId :: json

definition new_request :: "nat \<Rightarrow> body \<Rightarrow> int \<Rightarrow> request_doc" where
  \<comment> \<open>dates as day numbers; \<open>now\<close> is the clock in milliseconds\<close>
  "new_request now b days =
     \<lparr>stock_name = stockName b,
      start_date = (int now - days * 86400000) div 86400000,
      end_date = int now div 86400000,
      status = Pending, created_at = now, updated_at = now, completed_at = None\<rparr>"

definition createAnalysisRequest ::
  "nat \<Rightarrow> nat \<Rightarrow> body \<Rightarrow> int \<Rightarrow> db \<Rightarrow> db_error + req_id \<times> action list" where
  \<comment> \<open>\<open>gen\<close> is the ObjectId that the driver generates for the inserted document\<close>
  "createAnalysisRequest now gen b days d =
     (if requests d gen = None
      then Inr (GeneratedId gen, [InsertRequest gen (new_request now b days)])
      else Inl DuplicateKey)"

definition createAnalysisRequestWithId ::
  "js_env \<Rightarrow> nat \<Rightarrow> json \<Rightarrow> body \<Rightarrow> int \<Rightarrow> db \<Rightarrow> db_error + req_id \<times> action list" where
  "createAnalysisRequestWithId env now rid b days d =
     (if \<not> ObjectId_isValid env rid then Inl InvalidRequestId
      else if requests d (ObjectId_of env rid) = None
      then Inr (ClientId rid, [InsertRequest (ObjectId_of env rid) (new_request now b days)])
      else Inr (ClientId rid, []))"

fun oid_of_req :: "js_env \<Rightarrow> req_id \<Rightarrow> nat" where
  \<comment> \<open>\<open>new ObjectId(requestId)\<close>; a generated id is the string form of its own ObjectId\<close>
  "oid_of_req env (ClientId j) = ObjectId_of env j"
| "oid_of_req env (GeneratedId n) = n"

section \<open>The POST /api/analysis handler\<close>

text \<open>
  The handler as the list of its effects, in order. The worker's events are those up to
  the one that settles the promise: what the handlers of \<open>runPythonAnalyzer\<close> do
  after that happens beside the rest of the handler and writes nothing to the store.
\<close>

definition runJavaScriptAnalysis ::
  "js_env \<Rightarrow> bool \<Rightarrow> wevent list \<Rightarrow> action list \<times> (error + analysis) option" where
  "runJavaScriptAnalysis env spawn_ok es =
     (let (cacts, r) = collectAndAnalyzeStock env True spawn_ok es in
      case r of
        None \<Rightarrow> ([Emit (NewsCollection, Loading)] @ cacts, None)
      | Some (Inr a) \<Rightarrow>
          ([Emit (NewsCollection, Loading)] @ cacts @ [Emit (NewsCollection, Success)],
           Some (Inr a))
      | Some (Inl e) \<Rightarrow>
          ([Emit (NewsCollection, Loading)] @ cacts @ [Emit (NewsCollection, Error)],
           Some (Inl e)))"

datatype save_fault = FailResults | FailNews | FailIndicators

definition saveAnalysisToDatabase ::
  "nat \<Rightarrow> analysis \<Rightarrow> save_fault option \<Rightarrow> action list \<times> bool" where
  \<comment> \<open>the three writes in order; \<open>fault\<close> names the write that throws, if one does, and
      the flag tells whether the function returned normally\<close>
  "saveAnalysisToDatabase k a fault =
     (let news_write = (if news_data a = [] then [] else [SaveNews k (news_data a)]) in
      case fault of
        Some FailResults \<Rightarrow> ([], False)
      | Some FailNews \<Rightarrow> ([SaveResults k a], False)
      | Some FailIndicators \<Rightarrow> ([SaveResults k a] @ news_write, False)
      | None \<Rightarrow> ([SaveResults k a] @ news_write @ [SaveIndicators k], True))"

definition finish_job ::
  "nat \<Rightarrow> req_id \<Rightarrow> nat \<Rightarrow> save_fault option \<Rightarrow> (error + analysis) option \<Rightarrow> action list" where
  \<comment> \<open>the handler after \<open>await runJavaScriptAnalysis(...)\<close>; nothing happens while the
      analysis has not returned\<close>
  "finish_job k rid now fault r =
     (case r of
        None \<Rightarrow> []
      | Some (Inr a) \<Rightarrow>
          (let (sacts, ok) = saveAnalysisToDatabase k a fault in
           if ok
           then [Emit (Save, Loading)] @ sacts @
                [Emit (Save, Success), UpdateStatus k Completed (Some now) now,
                 Emit (Complete, Success), AddLog k INFO, Respond 200 (Some rid)]
           else [Emit (Save, Loading)] @ sacts @ [Emit (Save, Error), Respond 500 None])
      | Some (Inl e) \<Rightarrow>
          [Emit (Analysis, Error), UpdateStatus k Failed None now, AddLog k ERROR,
           Respond 500 (Some rid)])"

definition run_job ::
  "js_env \<Rightarrow> nat \<Rightarrow> req_id \<Rightarrow> bool \<Rightarrow> wevent list \<Rightarrow> save_fault option \<Rightarrow> action list" where
  \<comment> \<open>the handler from the first \<open>sendProgress\<close> on, once the request id is known\<close>
  "run_job env now rid spawn_ok es fault =
     (let k = oid_of_req env rid;
          (jacts, r) = runJavaScriptAnalysis env spawn_ok es
      in [Emit (Init, Success), AddLog k INFO, UpdateStatus k InProgress None now,
          Emit (Processing, Success)]
         @ jacts @ finish_job k rid now fault r)"

definition create_request ::
  "js_env \<Rightarrow> nat \<Rightarrow> nat \<Rightarrow> body \<Rightarrow> int \<Rightarrow> db \<Rightarrow> db_error + req_id \<times> action list" where
  "create_request env now gen b days d =
     (if truthy (requestId b)
      then (case createAnalysisRequestWithId env now (requestId b) b days d of
              Inr r \<Rightarrow> Inr r
            | Inl creationError \<Rightarrow> createAnalysisRequest now gen b days d)
      else createAnalysisRequest now gen b days d)"

definition requested_days :: "js_env \<Rightarrow> body \<Rightarrow> int option" where
  \<comment> \<open>\<open>parseInt(daysBack)\<close> with the default \<open>daysBack = 7\<close> of the destructuring\<close>
  "requested_days env b =
     parseInt env (if daysBack b = JUndefined then JNum 7 else daysBack b)"

definition post_analysis ::
  "js_env \<Rightarrow> nat \<Rightarrow> nat \<Rightarrow> bool \<Rightarrow> wevent list \<Rightarrow> save_fault option \<Rightarrow> body \<Rightarrow> db
     \<Rightarrow> action list" where
  "post_analysis env now gen spawn_ok es fault b d =
     (if \<not> truthy (stockName b) then [Respond 400 None]
      else
        (case requested_days env b of
           None \<Rightarrow> [Respond 400 None]
         | Some days \<Rightarrow>
             if days < 1 \<or> days > 90 then [Respond 400 None]
             else
               (case create_request env now gen b days d of
                  Inl err \<Rightarrow> [Respond 500 None]
                | Inr (rid, cacts) \<Rightarrow> cacts @ run_job env now rid spawn_ok es fault)))"

section \<open>The WebSocket rooms\<close>










section \<open>Notions used to state the properties\<close>

fun is_data :: "wevent \<Rightarrow> bool" where
  "is_data (StdoutData d) = True"
| "is_data (StderrData d) = True"
| "is_data e = False"

definition is_terminal :: "wevent \<Rightarrow> bool" where
  "is_terminal e = (\<not> is_data e)"

fun captured_stdout :: "wevent list \<Rightarrow> jsstring" where
  \<comment> \<open>what the stdout handler has accumulated after these events\<close>
  "captured_stdout [] = []"
| "captured_stdout (StdoutData d # es) = d @ captured_stdout es"
| "captured_stdout (e # es) = captured_stdout es"

definition payload_of_line :: "js_env \<Rightarrow> jsstring \<Rightarrow> json option" where
  \<comment> \<open>a well-formed structured result payload line: trimmed, it is enclosed in braces and
      parses\<close>
  "payload_of_line env l =
     (let t = js_trim l in
      if starts_with t [123] \<and> ends_with t [125] then JSON_parse env t else None)"

definition payloads :: "js_env \<Rightarrow> jsstring \<Rightarrow> json list" where
  \<comment> \<open>the parsed payload lines of an output, in the order of the lines\<close>
  "payloads env out = List.map_filter (payload_of_line env) (js_split 10 out)"


fun no_store_write :: "action \<Rightarrow> bool" where
  "no_store_write (Emit p) = True"
| "no_store_write Kill = True"
| "no_store_write a = False"

definition sup_inv :: "sup \<Rightarrow> bool" where
  \<comment> \<open>once the process is marked finished or a timer is spent, \<open>resolve\<close> has been called\<close>
  "sup_inv s = ((processFinished s \<or> \<not> timer1 s \<or> \<not> timer2 s) \<longrightarrow> resolved s \<noteq> [])"

fun after_states :: "action list \<Rightarrow> db \<Rightarrow> db list" where
  \<comment> \<open>the store after each action of a trace\<close>
  "after_states [] d = []"
| "after_states (a # as) d = apply_action a d # after_states as (apply_action a d)"

definition job_view :: "nat \<Rightarrow> db \<Rightarrow> (job_status \<times> nat option) option" where
  \<comment> \<open>what the store shows of one job: its status and its \<open>completed_at\<close>\<close>
  "job_view k d = map_option (\<lambda>doc. (status doc, completed_at doc)) (requests d k)"

fun status_rank :: "(job_status \<times> nat option) option \<Rightarrow> nat" where
  "status_rank None = 0"
| "status_rank (Some (Pending, c)) = 1"
| "status_rank (Some (InProgress, c)) = 2"
| "status_rank (Some (Completed, c)) = 3"
| "status_rank (Some (Failed, c)) = 3"

definition view_le ::
  "(job_status \<times> nat option) option \<Rightarrow> (job_status \<times> nat option) option \<Rightarrow> bool" where
  \<comment> \<open>a step forward along absent, pending, processing, then completed or failed\<close>
  "view_le v w = (v = w \<or> status_rank v < status_rank w)"

fun stamp_iff_completed :: "(job_status \<times> nat option) option \<Rightarrow> bool" where
  "stamp_iff_completed None = True"
| "stamp_iff_completed (Some (st, c)) = ((c \<noteq> None) = (st = Completed))"



definition empty_analysis :: analysis where
  "empty_analysis =
     \<lparr>positive_count = 0, negative_count = 0, neutral_count = 0, overall_sentiment = Neutral,
      overall_score = 0, confidence_score = 0, total_news_count = 0, analyzed_news_count = 0,
      news_data = [], analyzed_news = [], significant_news = []\<rparr>"


definition bucket_of :: "js_env \<Rightarrow> json \<Rightarrow> sentiment" where
  \<comment> \<open>the bucket of one analyzed item: above 0.1 positive, below -0.1 negative, otherwise
      neutral; a score that does not parse is neutral\<close>
  "bucket_of env item =
     (case parseFloat env (get_field item (asc ''score'')) of
        None \<Rightarrow> Neutral
      | Some r \<Rightarrow> if r > double_0_1 then Positive
                  else if r < - double_0_1 then Negative else Neutral)"

definition count_bucket :: "js_env \<Rightarrow> sentiment \<Rightarrow> json list \<Rightarrow> nat" where
  "count_bucket env s items = length (filter (\<lambda>n. bucket_of env n = s) items)"


section \<open>A concrete runtime for the examples\<close>

text \<open>
  The examples below need values for the built-ins. This runtime parses the lines
  \<open>{"n":1}\<close>, \<open>{"n":2}\<close>, \<open>{}\<close> and
  \<open>{"analyzed_news":[{"score":0.5},{"score":-0.5},{}],"news_data":[{}]}\<close>, reads
  numbers as they are, and takes a string of 24 code units as a valid ObjectId whose
  value is the sum of its code units.
\<close>

definition payload1 :: jsstring where "payload1 = [123, 34, 110, 34, 58, 49, 125]"
definition payload2 :: jsstring where "payload2 = [123, 34, 110, 34, 58, 50, 125]"

definition payload3 :: jsstring where
  "payload3 =
     [123, 34, 97, 110, 97, 108, 121, 122, 101, 100, 95, 110, 101, 119, 115, 34, 58, 91, 123,
      34, 115, 99, 111, 114, 101, 34, 58, 48, 46, 53, 125, 44, 123, 34, 115, 99, 111, 114, 101,
      34, 58, 45, 48, 46, 53, 125, 44, 123, 125, 93, 44, 34, 110, 101, 119, 115, 95, 100, 97,
      116, 97, 34, 58, 91, 123, 125, 93, 125]"

definition parsed3 :: json where
  "parsed3 =
     JObj [(asc ''analyzed_news'',
            JArr [JObj [(asc ''score'', JNum (1 / 2))], JObj [(asc ''score'', JNum (- 1 / 2))],
                  JObj []]),
           (asc ''news_data'', JArr [JObj []])]"

definition example_env :: js_env where
  "example_env =
     \<lparr>JSON_parse = (\<lambda>s. if s = payload1 then Some (JObj [(asc ''n'', JNum 1)])
                         else if s = payload2 then Some (JObj [(asc ''n'', JNum 2)])
                         else if s = [123, 125] then Some (JObj [])
                         else if s = payload3 then Some parsed3
                         else None),
      parseFloat = (\<lambda>j. case j of JNum r \<Rightarrow> Some r | _ \<Rightarrow> None),
      parseInt = (\<lambda>j. case j of JNum r \<Rightarrow> Some \<lfloor>r\<rfloor> | _ \<Rightarrow> None),
      Array_from = (\<lambda>j. case j of JUndefined \<Rightarrow> None | JNull \<Rightarrow> None | _ \<Rightarrow> Some []),
      ObjectId_isValid = (\<lambda>j. case j of JStr s \<Rightarrow> length s = 24 | _ \<Rightarrow> False),
      ObjectId_of = (\<lambda>j. case j of JStr s \<Rightarrow> sum_list s | _ \<Rightarrow> 0)\<rparr>"

definition analysis3 :: analysis where
  \<comment> \<open>the analysis of the full payload: one positive, one negative, one item without a
      score\<close>
  "analysis3 =
     \<lparr>positive_count = 1, negative_count = 1, neutral_count = 1, overall_sentiment = Neutral,
      overall_score = 0, confidence_score = 3 / 10, total_news_count = 1,
      analyzed_news_count = 3, news_data = [JObj []],
      analyzed_news = [JObj [(asc ''score'', JNum (1 / 2))],
                       JObj [(asc ''score'', JNum (- 1 / 2))], JObj []],
      significant_news = []\<rparr>"

definition payload_run :: "wevent list" where
  \<comment> \<open>a worker that prints the full payload on one line and exits with code 0\<close>
  "payload_run = [StdoutData (payload3 @ [10]), Close (Some 0)]"


definition failing_run :: "wevent list" where
  \<comment> \<open>a worker that exits with code 1\<close>
  "failing_run = [Close (Some 1)]"

definition two_payload_run :: "wevent list" where
  \<comment> \<open>a worker that prints \<open>{"n":1}\<close> and \<open>{"n":2}\<close> on two lines and exits with code 0\<close>
  "two_payload_run = [StdoutData (payload1 @ [10] @ payload2), Close (Some 0)]"

definition empty_db :: db where
  "empty_db = \<lparr>requests = Map.empty, results = Map.empty, news = [], logs = []\<rparr>"

definition line_news_done :: jsstring where
  \<comment> \<open>a timestamped line saying that the news collection is complete, padded with blanks\<close>
  "line_news_done =
     [32, 32] @ asc ''[12:00:01]  '' @ kw_news @ [32] @ kw_collect_done @ [32]"


definition request_X :: body where
  "request_X = \<lparr>stockName = JStr (asc ''X''), daysBack = JUndefined, requestId = JUndefined\<rparr>"

definition request_X_91 :: body where
  "request_X_91 = \<lparr>stockName = JStr (asc ''X''), daysBack = JNum 91, requestId = JUndefined\<rparr>"

definition id_a :: json where
  "id_a = JStr (replicate 24 97)"

definition request_X_id :: body where
  "request_X_id = \<lparr>stockName = JStr (asc ''X''), daysBack = JUndefined, requestId = id_a\<rparr>"

definition done_db :: db where
  \<comment> \<open>a store in which the job with the caller-supplied id \<open>id_a\<close> is completed\<close>
  "done_db =
     \<lparr>requests = [2328 \<mapsto> (new_request 1000 request_X_id 7)
                              \<lparr>status := Completed, completed_at := Some 1000\<rparr>],
      results = [2328 \<mapsto> empty_analysis], news = [], logs = []\<rparr>"


section \<open>Request validation\<close>

text \<open>
  C10. A POST /api/analysis request whose stockName is missing (falsy), or whose
  daysBack does not parse to an integer between 1 and 90, is answered with HTTP 400 and
  nothing else happens: no record is inserted, no worker is started, no event is sent,
  and the store is unchanged.
\<close>

theorem post_analysis_rejects_invalid_request:
  assumes "\<not> truthy (stockName b) \<or>
           (\<forall>n. requested_days env b = Some n \<longrightarrow> n < 1 \<or> 90 < n)"
  shows "post_analysis env now gen spawn_ok es fault b d = [Respond 400 None]
         \<and> exec (post_analysis env now gen spawn_ok es fault b d) d = d"
  using assms by (auto simp: post_analysis_def exec_def split: option.splits)

theorem post_analysis_rejects_invalid_request_witness:
  "requested_days example_env request_X_91 = Some 91
   \<and> post_analysis example_env 1000 7 True [Close (Some 0)] None request_X_91 empty_db
       = [Respond 400 None]
   \<and> exec (post_analysis example_env 1000 7 True [Close (Some 0)] None request_X_91 empty_db)
        empty_db = empty_db"
proof -
  have h: "\<not> truthy (stockName request_X_91) \<or>
    (\<forall>n. requested_days example_env request_X_91 = Some n \<longrightarrow> n < 1 \<or> 90 < n)"
    by (simp add: requested_days_def example_env_def request_X_91_def)
  have d: "requested_days example_env request_X_91 = Some 91"
    by (simp add: requested_days_def example_env_def request_X_91_def)
  from post_analysis_rejects_invalid_request [OF h] d show ?thesis by blast
qed

section \<open>The classifier\<close>

lemma rule_matches_simps:
  "rule_matches l news_rule = news_line l"
  "rule_matches l economic_rule = economic_line l"
  "rule_matches l policy_rule = policy_line l"
  "rule_matches l sentiment_rule = sentiment_line l"
  "rule_matches l report_rule = report_line l"
  by (simp_all add: rule_matches_def any_of_def news_rule_def news_line_def
        economic_rule_def economic_line_def policy_rule_def policy_line_def
        sentiment_rule_def sentiment_line_def report_rule_def report_line_def)

lemma rule_outcome_simps:
  "rule_outcome news_rule l = news_block l"
  "rule_outcome economic_rule l = economic_block l"
  "rule_outcome policy_rule l = policy_block l"
  "rule_outcome sentiment_rule l = sentiment_block l"
  "rule_outcome report_rule l = report_block l"
  by (simp_all add: rule_outcome_def any_of_def news_rule_def news_block_def
        economic_rule_def economic_block_def policy_rule_def policy_block_def
        sentiment_rule_def sentiment_block_def report_rule_def report_block_def)

lemma classify_eq_table: "classify l cur = classify_by_table l cur"
  by (simp add: classify_def classify_by_table_def stage_rules_def rule_matches_simps
        rule_outcome_simps)

text \<open>
  C8. A line of worker output that is blank or shorter than five code units after
  trimming is skipped: no log entry, no progress event, and the active step is unchanged.
  Every other line is classified by the first rule of the ordered table \<open>stage_rules\<close>
  that matches it: that rule alone decides the progress event (or that there is none) and
  the next active step; a line that no rule matches sends no progress event and leaves
  the active step as it is.
\<close>

theorem stderr_line_first_match:
  "(js_trim line = [] \<or> length (js_trim line) < 5 \<longrightarrow> stderr_line line cur = (None, cur))
   \<and> (\<not> (js_trim line = [] \<or> length (js_trim line) < 5) \<longrightarrow>
        (\<forall>r. find (rule_matches (strip_timestamp (js_trim line))) stage_rules = Some r \<longrightarrow>
           stderr_line line cur =
             (Some (log_type_of (strip_timestamp (js_trim line)),
                    fst (rule_outcome r (strip_timestamp (js_trim line)))),
              snd (rule_outcome r (strip_timestamp (js_trim line)))))
        \<and> (find (rule_matches (strip_timestamp (js_trim line))) stage_rules = None \<longrightarrow>
           stderr_line line cur =
             (Some (log_type_of (strip_timestamp (js_trim line)), None), cur)))"
  by (auto simp: stderr_line_def Let_def classify_eq_table classify_by_table_def
           split: prod.splits option.splits)

lemma trim_line_news_done:
  "js_trim line_news_done = asc ''[12:00:01]  '' @ kw_news @ [32] @ kw_collect_done"
  by (simp add: line_news_done_def js_trim_def is_space_def asc_def kw_news_def
        kw_collect_done_def)

lemma clean_line_news_done:
  "strip_timestamp (js_trim line_news_done) = kw_news @ [32] @ kw_collect_done"
  unfolding trim_line_news_done
  by (simp add: strip_timestamp_def is_space_def is_digit_def asc_def kw_news_def
        kw_collect_done_def)

lemma news_line_example: "news_line (kw_news @ [32] @ kw_collect_done)"
  by (simp add: news_line_def kw_news_def kw_collect_done_def kw_collect_def)

lemma news_block_example:
  "news_block (kw_news @ [32] @ kw_collect_done) = (Some (NewsCollection, Success), EconomicData)"
  by (simp add: news_block_def kw_news_def kw_collect_done_def kw_done_def)

lemma log_type_example: "log_type_of (kw_news @ [32] @ kw_collect_done) = LogSuccess"
  by (simp add: log_type_of_def kw_news_def kw_collect_done_def kw_done_def)

theorem stderr_line_first_match_witness:
  "stderr_line [32, 9, 97] PolicyAnalysis = (None, PolicyAnalysis)
   \<and> stderr_line line_news_done PolicyAnalysis
       = (Some (LogSuccess, Some (NewsCollection, Success)), EconomicData)"
proof -
  have short: "js_trim [32, 9, 97] = [] \<or> length (js_trim [32, 9, 97]) < 5"
    by (simp add: js_trim_def is_space_def)
  have long: "\<not> (js_trim line_news_done = [] \<or> length (js_trim line_news_done) < 5)"
    by (simp add: trim_line_news_done asc_def kw_news_def kw_collect_done_def)
  have first: "find (rule_matches (strip_timestamp (js_trim line_news_done))) stage_rules
                 = Some news_rule"
    using news_line_example
    by (simp add: clean_line_news_done stage_rules_def rule_matches_simps)
  have a: "stderr_line [32, 9, 97] PolicyAnalysis = (None, PolicyAnalysis)"
    using stderr_line_first_match [of "[32, 9, 97]" PolicyAnalysis] short by blast
  have b: "stderr_line line_news_done PolicyAnalysis
             = (Some (log_type_of (strip_timestamp (js_trim line_news_done)),
                      fst (rule_outcome news_rule (strip_timestamp (js_trim line_news_done)))),
                snd (rule_outcome news_rule (strip_timestamp (js_trim line_news_done))))"
    using stderr_line_first_match [of line_news_done PolicyAnalysis] long first by blast
  show ?thesis
    using a b news_block_example log_type_example
    by (simp add: clean_line_news_done rule_outcome_simps)
qed

section \<open>The supervisor\<close>

lemma find_json_payloads:
  "find_json env ls = (case List.map_filter (payload_of_line env) ls of [] \<Rightarrow> None | v # _ \<Rightarrow> Some v)"
  by (induction ls) (auto simp: payload_of_line_def Let_def split: option.splits)

lemma resolved_on_event: "\<exists>rs. resolved (on_event env sp e s) = resolved s @ rs"
  by (cases e) (auto simp: on_event_def on_close_def resolve_def Let_def split: prod.splits)

lemma resolved_run_events: "\<exists>rs. resolved (run_events env sp es s) = resolved s @ rs"
proof (induction es arbitrary: s)
  case Nil
  then show ?case by (simp add: run_events_def)
next
  case (Cons e es)
  obtain r1 where r1: "resolved (on_event env sp e s) = resolved s @ r1"
    using resolved_on_event by blast
  obtain r2 where "resolved (run_events env sp es (on_event env sp e s))
                     = resolved (on_event env sp e s) @ r2"
    using Cons.IH by blast
  with r1 show ?case by (simp add: run_events_def)
qed

lemma run_events_append:
  "run_events env sp (es @ es') s = run_events env sp es' (run_events env sp es s)"
  by (simp add: run_events_def)

lemma settled_run_events_stable:
  "settled s = Some r \<Longrightarrow> settled (run_events env sp es s) = Some r"
proof -
  assume a: "settled s = Some r"
  obtain rs where "resolved (run_events env sp es s) = resolved s @ rs"
    using resolved_run_events by blast
  with a show ?thesis by (auto simp: settled_def split: list.splits)
qed

lemma data_event_keeps:
  "is_data e \<Longrightarrow>
   resolved (on_event env sp e s) = resolved s \<and>
   processFinished (on_event env sp e s) = processFinished s \<and>
   timer1 (on_event env sp e s) = timer1 s \<and>
   timer2 (on_event env sp e s) = timer2 s \<and>
   stdout (on_event env sp e s) = stdout s @ captured_stdout [e]"
  by (cases e) (auto simp: on_event_def Let_def split: prod.splits)

lemma captured_stdout_Cons:
  "captured_stdout (e # es) = captured_stdout [e] @ captured_stdout es"
  by (cases e) auto

lemma data_events_keep:
  "\<forall>e\<in>set pre. is_data e \<Longrightarrow>
   resolved (run_events env sp pre s) = resolved s \<and>
   processFinished (run_events env sp pre s) = processFinished s \<and>
   timer1 (run_events env sp pre s) = timer1 s \<and>
   timer2 (run_events env sp pre s) = timer2 s \<and>
   stdout (run_events env sp pre s) = stdout s @ captured_stdout pre"
proof (induction pre arbitrary: s)
  case Nil
  then show ?case by (simp add: run_events_def)
next
  case (Cons e pre)
  then have e: "is_data e" and rest: "\<forall>e\<in>set pre. is_data e" by auto
  have step: "run_events env sp (e # pre) s = run_events env sp pre (on_event env sp e s)"
    by (simp add: run_events_def)
  show ?case
    unfolding step
    using Cons.IH [OF rest, of "on_event env sp e s"] data_event_keeps [OF e, of env sp s]
          captured_stdout_Cons [of e pre]
    by simp
qed

lemma close_0_after_data:
  assumes "\<forall>e\<in>set pre. is_data e"
  shows "resolved (run_events env sp (pre @ [Close (Some 0)]) (sup_start sp)) =
           [WSuccess (case payloads env (captured_stdout pre) of
                        [] \<Rightarrow> default_data
                      | v # _ \<Rightarrow> if truthy v then v else default_data)]"
proof -
  let ?s = "run_events env sp pre (sup_start sp)"
  have k: "resolved ?s = []" "\<not> processFinished ?s" "stdout ?s = captured_stdout pre"
    using data_events_keep [OF assms, of env sp "sup_start sp"] by (simp_all add: sup_start_def)
  have "run_events env sp (pre @ [Close (Some 0)]) (sup_start sp) = on_close env sp (Some 0) ?s"
    by (simp add: run_events_def on_event_def)
  then show ?thesis
    using k
    by (auto simp: on_close_def resolve_def Let_def find_json_payloads payloads_def
             split: list.splits)
qed

text \<open>
  C5 (as amended). When the worker closes with exit code 0 before any timer expired or
  error was reported, the promise settles as a success whose data is the parse of the
  first line of the captured standard output that, trimmed, is enclosed in braces and
  parses (the loop breaks there), not of the last one; when no line parses, the data is
  the default empty result. Later events do not change the settled value.
\<close>

theorem close_resolves_with_first_payload:
  assumes "\<forall>e\<in>set pre. is_data e"
  shows "settled (runPythonAnalyzer env sp True (pre @ Close (Some 0) # rest)) =
           Some (WSuccess (case payloads env (captured_stdout pre) of
                             [] \<Rightarrow> default_data
                           | v # _ \<Rightarrow> if truthy v then v else default_data))"
proof -
  have split: "pre @ Close (Some 0) # rest = (pre @ [Close (Some 0)]) @ rest" by simp
  have "settled (run_events env sp (pre @ [Close (Some 0)]) (sup_start sp)) =
          Some (WSuccess (case payloads env (captured_stdout pre) of
                            [] \<Rightarrow> default_data
                          | v # _ \<Rightarrow> if truthy v then v else default_data))"
    using close_0_after_data [OF assms, of env sp] by (simp add: settled_def)
  then show ?thesis
    unfolding runPythonAnalyzer_def split run_events_append
    by (simp add: settled_run_events_stable)
qed

subsection \<open>Which payload line is returned\<close>

lemma payload_of_line_payload1:
  "payload_of_line example_env payload1 = Some (JObj [(asc ''n'', JNum 1)])"
  by (simp add: payload_of_line_def js_trim_def is_space_def example_env_def payload1_def
        payload2_def ends_with_def)

lemma payload_of_line_payload2:
  "payload_of_line example_env payload2 = Some (JObj [(asc ''n'', JNum 2)])"
  by (simp add: payload_of_line_def js_trim_def is_space_def example_env_def payload1_def
        payload2_def ends_with_def)

lemma split_two_payloads: "js_split 10 (payload1 @ [10] @ payload2) = [payload1, payload2]"
  by (simp add: payload1_def payload2_def)

lemma payloads_two:
  "payloads example_env (payload1 @ [10] @ payload2)
     = [JObj [(asc ''n'', JNum 1)], JObj [(asc ''n'', JNum 2)]]"
  unfolding payloads_def split_two_payloads
  by (simp add: List.map_filter_simps payload_of_line_payload1 payload_of_line_payload2)

theorem close_resolves_with_first_payload_witness:
  "settled (runPythonAnalyzer example_env True True two_payload_run)
     = Some (WSuccess (JObj [(asc ''n'', JNum 1)]))"
proof -
  have d: "\<forall>e\<in>set [StdoutData (payload1 @ [10] @ payload2)]. is_data e" by simp
  show ?thesis
    using close_resolves_with_first_payload [OF d, of example_env True "[]"] payloads_two
    by (simp add: two_payload_run_def)
qed

text \<open>
  The specification's sentence (the last payload line is returned) does not hold for an
  output with two payload lines: the run settles with the first.
\<close>

theorem last_payload_counterexample:
  "payloads example_env (captured_stdout two_payload_run)
     = [JObj [(asc ''n'', JNum 1)], JObj [(asc ''n'', JNum 2)]]
   \<and> settled (runPythonAnalyzer example_env True True two_payload_run)
       \<noteq> Some (WSuccess (last (payloads example_env (captured_stdout two_payload_run))))"
proof -
  have d: "\<forall>e\<in>set [StdoutData (payload1 @ [10] @ payload2)]. is_data e" by simp
  have c: "captured_stdout two_payload_run = payload1 @ [10] @ payload2"
    by (simp add: two_payload_run_def)
  have r: "settled (runPythonAnalyzer example_env True True two_payload_run)
             = Some (WSuccess (JObj [(asc ''n'', JNum 1)]))"
    using close_0_after_data [OF d, of example_env True] payloads_two
    by (simp add: two_payload_run_def runPythonAnalyzer_def settled_def)
  show ?thesis
    unfolding c r using payloads_two by simp
qed

subsection \<open>Terminal events, timers and the awaiting caller\<close>

lemma sup_inv_start: "sup_inv (sup_start sp)"
  by (simp add: sup_inv_def sup_start_def)


lemma terminal_event_resolves:
  "sup_inv s \<Longrightarrow> is_terminal e \<Longrightarrow> resolved (on_event env sp e s) \<noteq> []"
  by (cases e) (auto simp: sup_inv_def is_terminal_def on_event_def on_close_def resolve_def
                     Let_def)





lemma acts_on_event:
  "\<exists>as. acts (on_event env sp e s) = acts s @ as \<and> list_all no_store_write as"
  by (cases e) (auto simp: on_event_def on_close_def resolve_def Let_def final_emits_def
                     list_all_iff split: prod.splits)

lemma acts_run_events:
  "\<exists>as. acts (run_events env sp es s) = acts s @ as \<and> list_all no_store_write as"
proof (induction es arbitrary: s)
  case Nil
  then show ?case by (simp add: run_events_def)
next
  case (Cons e es)
  obtain a1 where a1: "acts (on_event env sp e s) = acts s @ a1" "list_all no_store_write a1"
    using acts_on_event by blast
  obtain a2 where "acts (run_events env sp es (on_event env sp e s))
                     = acts (on_event env sp e s) @ a2" "list_all no_store_write a2"
    using Cons.IH by blast
  with a1 have "acts (run_events env sp (e # es) s) = acts s @ (a1 @ a2)
                \<and> list_all no_store_write (a1 @ a2)"
    by (simp add: run_events_def)
  then show ?case by blast
qed



lemma settled_await_nothing: "resolved s \<noteq> [] \<Longrightarrow> run_until_settled env sp es s = s"
  by (cases es) simp_all

lemma await_is_prefix_run:
  "\<exists>es1 es2. es = es1 @ es2 \<and> run_until_settled env sp es s = run_events env sp es1 s"
proof (induction es arbitrary: s)
  case Nil
  then show ?case by (simp add: run_events_def)
next
  case (Cons e es)
  show ?case
  proof (cases "resolved s = []")
    case True
    obtain es1 es2 where
      "es = es1 @ es2"
      "run_until_settled env sp es (on_event env sp e s)
         = run_events env sp es1 (on_event env sp e s)"
      using Cons.IH by blast
    then have "e # es = (e # es1) @ es2 \<and>
               run_until_settled env sp (e # es) s = run_events env sp (e # es1) s"
      using True by (simp add: run_events_def)
    then show ?thesis by blast
  next
    case False
    then have "e # es = [] @ (e # es) \<and>
               run_until_settled env sp (e # es) s = run_events env sp [] s"
      by (simp add: run_events_def)
    then show ?thesis by blast
  qed
qed

lemma await_data_prefix:
  "\<forall>e\<in>set pre. is_data e \<Longrightarrow> resolved s = [] \<Longrightarrow>
   run_until_settled env sp (pre @ es) s = run_until_settled env sp es (run_events env sp pre s)"
proof (induction pre arbitrary: s)
  case Nil
  then show ?case by (simp add: run_events_def)
next
  case (Cons e pre)
  then have e: "is_data e" and rest: "\<forall>e\<in>set pre. is_data e" by auto
  have r: "resolved (on_event env sp e s) = []"
    using data_event_keeps [OF e, of env sp s] Cons.prems(2) by simp
  show ?case
    using Cons.IH [OF rest r] Cons.prems(2) by (simp add: run_events_def)
qed

lemma await_first_terminal:
  assumes "\<forall>e\<in>set pre. is_data e" and "is_terminal e"
  shows "awaitPythonAnalyzer env sp True (pre @ e # rest)
           = run_events env sp (pre @ [e]) (sup_start sp)"
proof -
  let ?s = "run_events env sp pre (sup_start sp)"
  have k: "resolved ?s = []" "sup_inv ?s"
    using data_events_keep [OF assms(1), of env sp "sup_start sp"] sup_inv_start [of sp]
    by (simp_all add: sup_start_def sup_inv_def)
  have r: "resolved (on_event env sp e ?s) \<noteq> []"
    using terminal_event_resolves [OF k(2) assms(2)] .
  have "run_until_settled env sp (pre @ e # rest) (sup_start sp)
          = run_until_settled env sp (e # rest) ?s"
    using await_data_prefix [OF assms(1), of "sup_start sp" env sp "e # rest"]
    by (simp add: sup_start_def)
  also have "\<dots> = on_event env sp e ?s"
    using k(1) settled_await_nothing [OF r] by simp
  finally show ?thesis
    by (simp add: awaitPythonAnalyzer_def run_events_def)
qed

lemma await_acts_pure:
  "\<exists>as. acts (awaitPythonAnalyzer env sp ok es) = emit sp (PythonAnalyzer, Loading) @ as
        \<and> list_all no_store_write as"
proof (cases ok)
  case True
  obtain es1 es2 where
    "run_until_settled env sp es (sup_start sp) = run_events env sp es1 (sup_start sp)"
    using await_is_prefix_run by blast
  moreover obtain as where
    "acts (run_events env sp es1 (sup_start sp)) = acts (sup_start sp) @ as"
    "list_all no_store_write as"
    using acts_run_events by blast
  ultimately show ?thesis
    using True by (auto simp: awaitPythonAnalyzer_def sup_start_def)
next
  case False
  then show ?thesis by (simp add: awaitPythonAnalyzer_def sup_failed_start_def)
qed

section \<open>The handler\<close>

lemma collect_acts_pure:
  "list_all no_store_write (fst (collectAndAnalyzeStock env sp ok es))"
proof -
  obtain as where
    "acts (awaitPythonAnalyzer env sp ok es) = emit sp (PythonAnalyzer, Loading) @ as"
    "list_all no_store_write as"
    using await_acts_pure by blast
  then show ?thesis
    by (auto simp: collectAndAnalyzeStock_def Let_def emit_def
             split: option.splits worker_result.splits)
qed

lemma js_acts_pure:
  "list_all no_store_write (fst (runJavaScriptAnalysis env ok es))"
  using collect_acts_pure [of env True ok es]
  by (auto simp: runJavaScriptAnalysis_def split: prod.splits option.splits sum.splits)

lemma exec_append: "exec (xs @ ys) d = exec ys (exec xs d)"
  by (simp add: exec_def)

lemma exec_pure: "list_all no_store_write as \<Longrightarrow> exec as d = d"
proof (induction as)
  case Nil
  then show ?case by (simp add: exec_def)
next
  case (Cons a as)
  then have "apply_action a d = d" by (cases a) simp_all
  with Cons show ?case by (simp add: exec_def)
qed

lemma exec_run_job:
  "exec (run_job env now rid ok es fault) d =
   exec (finish_job (oid_of_req env rid) rid now fault (snd (runJavaScriptAnalysis env ok es)))
     (exec [AddLog (oid_of_req env rid) INFO,
            UpdateStatus (oid_of_req env rid) InProgress None now] d)"
proof -
  obtain jacts r where j: "runJavaScriptAnalysis env ok es = (jacts, r)"
    by (cases "runJavaScriptAnalysis env ok es")
  have p: "list_all no_store_write jacts" using js_acts_pure [of env ok es] j by simp
  have pre: "exec [Emit (Init, Success), AddLog (oid_of_req env rid) INFO,
                   UpdateStatus (oid_of_req env rid) InProgress None now,
                   Emit (Processing, Success)] d
             = exec [AddLog (oid_of_req env rid) INFO,
                     UpdateStatus (oid_of_req env rid) InProgress None now] d"
    by (simp add: exec_def)
  have "run_job env now rid ok es fault =
          [Emit (Init, Success), AddLog (oid_of_req env rid) INFO,
           UpdateStatus (oid_of_req env rid) InProgress None now, Emit (Processing, Success)]
          @ jacts @ finish_job (oid_of_req env rid) rid now fault r"
    by (simp add: run_job_def Let_def j)
  then show ?thesis
    unfolding j by (simp only: exec_append exec_pure [OF p] pre snd_conv)
qed

subsection \<open>Timeout and the outcome of the job\<close>



lemma post_analysis_valid:
  assumes "truthy (stockName b)" "requested_days env b = Some n" "1 \<le> n" "n \<le> 90"
          "create_request env now gen b n d = Inr (rid, cacts)"
  shows "post_analysis env now gen ok es fault b d = cacts @ run_job env now rid ok es fault"
  using assms by (simp add: post_analysis_def)


lemma resolve_called_twice_example:
  "resolved (runPythonAnalyzer example_env True True [Close (Some 1), Timeout2])
     = [WFailure (ExitFailure (Some 1)), WFailure Timeout]"
  by (simp add: runPythonAnalyzer_def run_events_def on_event_def on_close_def resolve_def
        sup_start_def emit_def)



subsection \<open>A worker that exits normally without a payload\<close>






lemma request_X_valid:
  "truthy (stockName request_X)" "requested_days example_env request_X = Some 7"
  "create_request example_env 1000 7 request_X 7 empty_db
     = Inr (GeneratedId 7, [InsertRequest 7 (new_request 1000 request_X 7)])"
  by (simp_all add: request_X_def requested_days_def example_env_def create_request_def
        createAnalysisRequest_def empty_db_def asc_def)



subsection \<open>A successful run\<close>

lemma split_payload3: "js_split 10 (payload3 @ [10]) = [payload3, []]"
  by (simp add: payload3_def)

lemma payload_of_line_payload3: "payload_of_line example_env payload3 = Some parsed3"
  by (simp add: payload_of_line_def js_trim_def is_space_def example_env_def payload1_def
        payload2_def payload3_def ends_with_def)

lemma payloads_payload3: "payloads example_env (payload3 @ [10]) = [parsed3]"
  unfolding payloads_def split_payload3
  by (simp add: payload_of_line_payload3) (simp add: payload_of_line_def js_trim_def)

lemma analyze_parsed3: "analyze_payload example_env parsed3 = Some analysis3"
  by (simp add: analyze_payload_def parsed3_def asc_def tally0_def tally_step_def
        news_score_def score_or_zero_def example_env_def double_0_1_def analysis3_def
        Let_def numeral_3_eq_3)

lemma acts_payload_run:
  "acts (awaitPythonAnalyzer example_env True True payload_run)
     = Emit (PythonAnalyzer, Loading) # final_emits"
proof -
  have d: "\<forall>e\<in>set [StdoutData (payload3 @ [10])]. is_data e" by simp
  have t: "is_terminal (Close (Some 0))" by (simp add: is_terminal_def)
  have "awaitPythonAnalyzer example_env True True payload_run
          = run_events example_env True ([StdoutData (payload3 @ [10])] @ [Close (Some 0)])
              (sup_start True)"
    using await_first_terminal [OF d t, of example_env True "[]"] by (simp add: payload_run_def)
  then show ?thesis
    by (simp add: run_events_def on_event_def on_close_def resolve_def sup_start_def emit_def
          Let_def)
qed

lemma js_payload_run:
  "runJavaScriptAnalysis example_env True payload_run
     = ([Emit (NewsCollection, Loading), Emit (PythonAnalyzer, Loading)] @ final_emits
        @ [Emit (PythonAnalyzer, Success), Emit (NewsCollection, Success)],
        Some (Inr analysis3))"
proof -
  have d: "\<forall>e\<in>set [StdoutData (payload3 @ [10])]. is_data e" by simp
  have t: "is_terminal (Close (Some 0))" by (simp add: is_terminal_def)
  have a: "awaitPythonAnalyzer example_env True True payload_run
          = run_events example_env True ([StdoutData (payload3 @ [10])] @ [Close (Some 0)])
              (sup_start True)"
    using await_first_terminal [OF d t, of example_env True "[]"] by (simp add: payload_run_def)
  have s: "settled (awaitPythonAnalyzer example_env True True payload_run)
             = Some (WSuccess parsed3)"
    unfolding a using close_0_after_data [OF d, of example_env True] payloads_payload3
    by (simp add: settled_def parsed3_def)
  show ?thesis
    by (simp add: runJavaScriptAnalysis_def collectAndAnalyzeStock_def Let_def s
          acts_payload_run analyze_parsed3)
qed

text \<open>
  C2. The handler writes the result to the store before it sets the status completed
  and before it sends its own complete event. But the close handler of the supervisor has
  already sent a complete/success event when the worker closed: in the trace of a
  successful run that event comes before the write of the result, and the store holds no
  result for the job when it is sent.
\<close>

theorem complete_event_sent_before_result_stored:
  "post_analysis example_env 1000 7 True payload_run None request_X empty_db
     = [InsertRequest 7 (new_request 1000 request_X 7),
        Emit (Init, Success), AddLog 7 INFO, UpdateStatus 7 InProgress None 1000,
        Emit (Processing, Success), Emit (NewsCollection, Loading),
        Emit (PythonAnalyzer, Loading), Emit (EconomicData, Success),
        Emit (PolicyAnalysis, Success), Emit (ReportGeneration, Success)]
       @ Emit (Complete, Success)
       # [Emit (PythonAnalyzer, Success), Emit (NewsCollection, Success), Emit (Save, Loading),
          SaveResults 7 analysis3, SaveNews 7 [JObj []], SaveIndicators 7,
          Emit (Save, Success), UpdateStatus 7 Completed (Some 1000) 1000,
          Emit (Complete, Success), AddLog 7 INFO, Respond 200 (Some (GeneratedId 7))]
   \<and> results (exec [InsertRequest 7 (new_request 1000 request_X 7),
                     Emit (Init, Success), AddLog 7 INFO, UpdateStatus 7 InProgress None 1000,
                     Emit (Processing, Success), Emit (NewsCollection, Loading),
                     Emit (PythonAnalyzer, Loading), Emit (EconomicData, Success),
                     Emit (PolicyAnalysis, Success), Emit (ReportGeneration, Success)]
                empty_db) 7 = None"
proof -
  have p: "post_analysis example_env 1000 7 True payload_run None request_X empty_db
             = [InsertRequest 7 (new_request 1000 request_X 7)]
               @ run_job example_env 1000 (GeneratedId 7) True payload_run None"
    using post_analysis_valid [OF request_X_valid(1,2) _ _ request_X_valid(3)] by simp
  show ?thesis
    unfolding p
    by (simp add: run_job_def js_payload_run finish_job_def saveAnalysisToDatabase_def
          final_emits_def analysis3_def exec_def empty_db_def)
qed

section \<open>The life of a job in the store\<close>

lemma after_states_append:
  "after_states (xs @ ys) d = after_states xs d @ after_states ys (exec xs d)"
  by (induction xs arbitrary: d) (simp_all add: exec_def)

lemma apply_pure: "no_store_write a \<Longrightarrow> apply_action a d = d"
  by (cases a) simp_all

lemma after_states_pure:
  "list_all no_store_write as \<Longrightarrow> after_states as d = replicate (length as) d"
  by (induction as) (simp_all add: apply_pure)

lemma view_le_refl: "view_le v v"
  by (simp add: view_le_def)

lemma view_le_trans: "view_le a b \<Longrightarrow> view_le b c \<Longrightarrow> view_le a c"
  by (auto simp: view_le_def)

lemma create_request_fresh:
  assumes "create_request env now gen b n d = Inr (rid, cacts)"
      and "requests d (oid_of_req env rid) = None"
  shows "cacts = [InsertRequest (oid_of_req env rid) (new_request now b n)]"
  using assms
  by (auto simp: create_request_def createAnalysisRequestWithId_def createAnalysisRequest_def
           split: if_splits sum.splits)

lemma finish_views:
  assumes "job_view k d = Some (InProgress, None)"
  shows "sorted_wrt view_le
           (Some (InProgress, None) # map (job_view k) (after_states (finish_job k rid now fault r) d))
         \<and> list_all stamp_iff_completed
             (map (job_view k) (after_states (finish_job k rid now fault r) d))"
proof (cases r)
  case None
  then show ?thesis by (simp add: finish_job_def)
next
  case (Some res)
  show ?thesis
  proof (cases res)
    case (Inl e)
    with Some assms show ?thesis
      by (auto simp: finish_job_def job_view_def view_le_def)
  next
    case (Inr a)
    with Some assms show ?thesis
      by (cases fault rule: option.exhaust [case_names None Some])
         (auto simp: finish_job_def saveAnalysisToDatabase_def job_view_def view_le_def
               split: save_fault.splits)
  qed
qed

lemma sorted_wrt_view_le_join:
  assumes "sorted_wrt view_le (xs @ [x])" and "sorted_wrt view_le (x # ys)"
  shows "sorted_wrt view_le (xs @ x # replicate m x @ ys)"
proof -
  have a: "\<forall>a\<in>set xs. view_le a x" and b: "\<forall>y\<in>set ys. view_le x y"
    and sx: "sorted_wrt view_le xs" and sy: "sorted_wrt view_le ys"
    using assms by (simp_all add: sorted_wrt_append)
  have ab: "\<forall>a\<in>set xs. \<forall>y\<in>set ys. view_le a y"
    using a b view_le_trans by blast
  have rep: "sorted_wrt view_le (replicate m x)"
    by (induction m) (simp_all add: view_le_refl)
  have mid: "sorted_wrt view_le (x # replicate m x @ ys)"
    using b sy rep by (auto simp: sorted_wrt_append view_le_refl)
  show ?thesis
    using sx mid a ab by (auto simp: sorted_wrt_append view_le_refl)
qed

lemma list_all_join:
  assumes "list_all P xs" and "P x" and "list_all P ys"
  shows "list_all P (xs @ x # replicate m x @ ys)"
  using assms by (auto simp: list_all_iff)
text \<open>
  C6 (as amended). For every job whose record is created by the submission, the views
  of the job that the store shows during the run of the handler (absent, then status and
  completed_at after each action) only move forward along pending, processing, then
  completed or failed, and never back; and at every moment completed_at is set exactly
  when the status is completed. A job that reaches failed has no completed_at.
\<close>

theorem fresh_job_status_is_monotonic:
  assumes "truthy (stockName b)" "requested_days env b = Some n" "1 \<le> n" "n \<le> 90"
      and "create_request env now gen b n d = Inr (rid, cacts)"
      and "requests d (oid_of_req env rid) = None"
  shows "sorted_wrt view_le
           (map (job_view (oid_of_req env rid))
              (d # after_states (post_analysis env now gen ok es fault b d) d))
         \<and> list_all stamp_iff_completed
             (map (job_view (oid_of_req env rid))
                (d # after_states (post_analysis env now gen ok es fault b d) d))"
proof -
  let ?k = "oid_of_req env rid"
  let ?ins = "InsertRequest ?k (new_request now b n)"
  let ?pre = "[Emit (Init, Success), AddLog ?k INFO, UpdateStatus ?k InProgress None now,
               Emit (Processing, Success)]"
  obtain jacts r where j: "runJavaScriptAnalysis env ok es = (jacts, r)"
    by (cases "runJavaScriptAnalysis env ok es")
  have pj: "list_all no_store_write jacts" using js_acts_pure [of env ok es] j by simp
  let ?fin = "finish_job ?k rid now fault r"
  have c: "cacts = [?ins]" using assms(5,6) by (rule create_request_fresh)
  have tr: "post_analysis env now gen ok es fault b d = [?ins] @ ?pre @ jacts @ ?fin"
    using post_analysis_valid [OF assms(1-5), of ok es fault] c
    by (simp add: run_job_def Let_def j)
  let ?d1 = "apply_action ?ins d"
  let ?d2 = "exec ?pre ?d1"
  have v0: "job_view ?k d = None" using assms(6) by (simp add: job_view_def)
  have v2: "job_view ?k ?d2 = Some (InProgress, None)"
    by (simp add: exec_def job_view_def new_request_def)
  have pre_views: "map (job_view ?k) (after_states ?pre ?d1)
                     = [Some (Pending, None), Some (Pending, None), Some (InProgress, None),
                        Some (InProgress, None)]"
    by (simp add: job_view_def new_request_def)
  have v1: "job_view ?k ?d1 = Some (Pending, None)"
    by (simp add: job_view_def new_request_def)
  have states: "after_states (post_analysis env now gen ok es fault b d) d
                  = [?d1] @ after_states ?pre ?d1 @ replicate (length jacts) ?d2
                    @ after_states ?fin ?d2"
    unfolding tr
    by (simp only: after_states_append after_states_pure [OF pj] exec_append
          exec_pure [OF pj])
       (simp add: exec_def)
  let ?vs = "map (job_view ?k) (after_states ?fin ?d2)"
  have views: "map (job_view ?k) (d # after_states (post_analysis env now gen ok es fault b d) d)
                 = [None, Some (Pending, None), Some (Pending, None), Some (Pending, None),
                    Some (InProgress, None)]
                   @ Some (InProgress, None) # replicate (length jacts) (Some (InProgress, None))
                   @ ?vs"
    unfolding states using v0 v1 v2 pre_views by simp
  have fs: "sorted_wrt view_le (Some (InProgress, None) # ?vs)"
    and fa: "list_all stamp_iff_completed ?vs"
    using finish_views [OF v2, of rid now fault r] by blast+
  have s1: "sorted_wrt view_le
              ([None, Some (Pending, None), Some (Pending, None), Some (Pending, None),
                Some (InProgress, None)] @ [Some (InProgress, None)])"
    by (simp add: view_le_def)
  have a1: "list_all stamp_iff_completed
              [None, Some (Pending, None), Some (Pending, None), Some (Pending, None),
               Some (InProgress, None)]"
    by simp
  have a2: "stamp_iff_completed (Some (InProgress, None))" by simp
  have sorted: "sorted_wrt view_le
                  (map (job_view ?k)
                     (d # after_states (post_analysis env now gen ok es fault b d) d))"
    unfolding views by (rule sorted_wrt_view_le_join [OF s1 fs])
  have stamps: "list_all stamp_iff_completed
                  (map (job_view ?k)
                     (d # after_states (post_analysis env now gen ok es fault b d) d))"
    unfolding views by (rule list_all_join [OF a1 a2 fa])
  from sorted stamps show ?thesis by blast
qed

theorem fresh_job_status_is_monotonic_witness:
  "sorted_wrt view_le
     (map (job_view 7)
        (empty_db # after_states
           (post_analysis example_env 1000 7 True failing_run None request_X empty_db) empty_db))
   \<and> list_all stamp_iff_completed
       (map (job_view 7)
          (empty_db # after_states
             (post_analysis example_env 1000 7 True failing_run None request_X empty_db)
             empty_db))"
proof -
  have fresh: "requests empty_db (oid_of_req example_env (GeneratedId 7)) = None"
    by (simp add: empty_db_def)
  show ?thesis
    using fresh_job_status_is_monotonic
            [OF request_X_valid(1,2) _ _ request_X_valid(3) fresh, of True failing_run None]
    by simp
qed

lemma js_failing_run:
  "snd (runJavaScriptAnalysis env True failing_run)
     = Some (Inl (AnalysisFailed (ExitFailure (Some 1))))"
  by (simp add: failing_run_def runJavaScriptAnalysis_def collectAndAnalyzeStock_def
        awaitPythonAnalyzer_def on_event_def on_close_def resolve_def sup_start_def settled_def
        Let_def)

lemma js_not_returned:
  "snd (runJavaScriptAnalysis env True []) = None"
  by (simp add: runJavaScriptAnalysis_def collectAndAnalyzeStock_def awaitPythonAnalyzer_def
        sup_start_def settled_def Let_def)

lemma request_X_id_valid:
  "truthy (stockName request_X_id)" "requested_days example_env request_X_id = Some 7"
  "ObjectId_isValid example_env id_a" "ObjectId_of example_env id_a = 2328"
  "truthy (requestId request_X_id)" "requestId request_X_id = id_a"
  by (simp_all add: request_X_id_def requested_days_def example_env_def id_a_def asc_def
        sum_list_replicate)

text \<open>
  The specification's sentence does not hold in two ways. A job whose worker exits with
  code 1 ends failed with no completed_at. And a submission that carries the id of a
  completed job sets the status of that job back to processing, with the old
  completed_at still in place.
\<close>

theorem failed_job_has_no_completed_at_counterexample:
  "job_view 7 (exec (post_analysis example_env 1000 7 True failing_run None request_X empty_db)
                 empty_db) = Some (Failed, None)
   \<and> job_view 2328 done_db = Some (Completed, Some 1000)
   \<and> job_view 2328 (exec (post_analysis example_env 2000 7 True [] None request_X_id done_db)
                       done_db) = Some (InProgress, Some 1000)"
proof -
  have p: "post_analysis example_env 1000 7 True failing_run None request_X empty_db
             = [InsertRequest 7 (new_request 1000 request_X 7)]
               @ run_job example_env 1000 (GeneratedId 7) True failing_run None"
    using post_analysis_valid [OF request_X_valid(1,2) _ _ request_X_valid(3)] by simp
  have a: "job_view 7 (exec (post_analysis example_env 1000 7 True failing_run None request_X
                               empty_db) empty_db) = Some (Failed, None)"
    unfolding p exec_append exec_run_job js_failing_run
    by (simp add: finish_job_def exec_def job_view_def empty_db_def new_request_def)
  have c: "create_request example_env 2000 7 request_X_id 7 done_db = Inr (ClientId id_a, [])"
    using request_X_id_valid
    by (simp add: create_request_def createAnalysisRequestWithId_def done_db_def)
  have q: "post_analysis example_env 2000 7 True [] None request_X_id done_db
             = [] @ run_job example_env 2000 (ClientId id_a) True [] None"
    using post_analysis_valid [OF request_X_id_valid(1,2) _ _ c] by simp
  have b: "job_view 2328 (exec (post_analysis example_env 2000 7 True [] None request_X_id
                                  done_db) done_db) = Some (InProgress, Some 1000)"
    unfolding q exec_append exec_run_job js_not_returned
    using request_X_id_valid(4)
    by (simp add: finish_job_def exec_def job_view_def done_db_def new_request_def)
  have d: "job_view 2328 done_db = Some (Completed, Some 1000)"
    by (simp add: job_view_def done_db_def new_request_def)
  from a b d show ?thesis by blast
qed

subsection \<open>Submitting an id that exists\<close>











section \<open>The statistics of collectAndAnalyzeStock\<close>

lemma double_0_1_pos: "0 < double_0_1"
  by (simp add: double_0_1_def)

lemma tally_step_counts:
  "positiveCount (tally_step (score_or_zero env n) t)
     = positiveCount t + (if bucket_of env n = Positive then 1 else 0)
   \<and> negativeCount (tally_step (score_or_zero env n) t)
     = negativeCount t + (if bucket_of env n = Negative then 1 else 0)
   \<and> neutralCount (tally_step (score_or_zero env n) t)
     = neutralCount t + (if bucket_of env n = Neutral then 1 else 0)"
  using double_0_1_pos
  by (auto simp: tally_step_def score_or_zero_def bucket_of_def Let_def split: option.splits)

lemma tally_news_counts:
  "tally_news env ns t = Some t' \<Longrightarrow>
   positiveCount t' = positiveCount t + count_bucket env Positive ns
   \<and> negativeCount t' = negativeCount t + count_bucket env Negative ns
   \<and> neutralCount t' = neutralCount t + count_bucket env Neutral ns"
proof (induction ns arbitrary: t)
  case Nil
  then show ?case by (simp add: count_bucket_def)
next
  case (Cons n ns)
  from Cons.prems have s: "news_score env n = Some (score_or_zero env n)"
    and r: "tally_news env ns (tally_step (score_or_zero env n) t) = Some t'"
    by (auto simp: news_score_def split: if_splits)
  show ?case
    using Cons.IH [OF r] tally_step_counts [of env n t]
    by (simp add: count_bucket_def)
qed

lemma count_bucket_total:
  "count_bucket env Positive ns + count_bucket env Negative ns + count_bucket env Neutral ns
     = length ns"
proof (induction ns)
  case Nil
  then show ?case by (simp add: count_bucket_def)
next
  case (Cons n ns)
  then show ?case by (cases "bucket_of env n") (simp_all add: count_bucket_def)
qed

lemma analyze_payload_counts:
  assumes "analyze_payload env result = Some a"
  shows "positive_count a = count_bucket env Positive (analyzed_news a)
         \<and> negative_count a = count_bucket env Negative (analyzed_news a)
         \<and> neutral_count a = count_bucket env Neutral (analyzed_news a)
         \<and> analyzed_news_count a = length (analyzed_news a)
         \<and> 0 \<le> overall_score a"
proof -
  from assms obtain items t where
    t: "tally_news env items tally0 = Some t"
    and a: "positive_count a = positiveCount t" "negative_count a = negativeCount t"
           "neutral_count a = neutralCount t" "analyzed_news a = items"
           "analyzed_news_count a = length items" "0 \<le> overall_score a"
    by (auto simp: analyze_payload_def Let_def split: if_splits option.splits)
  show ?thesis
    using tally_news_counts [OF t] a by (simp add: tally0_def)
qed

text \<open>
  C9. In every analysis that collectAndAnalyzeStock returns, each analyzed news item is
  counted in exactly one bucket: positive when its score is above 0.1, negative when it
  is below -0.1, neutral otherwise, a score that does not parse counting as neutral. So
  the three counts add up to the number of analyzed items, and the overall score is not
  negative. Scores are the real values of the doubles; 0.1 is the value of the double
  that the literal denotes.
\<close>

theorem sentiment_counts_partition:
  assumes "snd (collectAndAnalyzeStock env sp ok es) = Some (Inr a)"
  shows "positive_count a + negative_count a + neutral_count a = analyzed_news_count a
         \<and> analyzed_news_count a = length (analyzed_news a)
         \<and> positive_count a = count_bucket env Positive (analyzed_news a)
         \<and> negative_count a = count_bucket env Negative (analyzed_news a)
         \<and> neutral_count a = count_bucket env Neutral (analyzed_news a)
         \<and> 0 \<le> overall_score a"
proof -
  from assms obtain result where "analyze_payload env result = Some a"
    by (auto simp: collectAndAnalyzeStock_def Let_def
             split: option.splits worker_result.splits if_splits)
  then show ?thesis
    using analyze_payload_counts [of env result a] count_bucket_total [of env "analyzed_news a"]
    by simp
qed

lemma collect_payload_run:
  "snd (collectAndAnalyzeStock example_env True True payload_run) = Some (Inr analysis3)"
  using js_payload_run
  by (auto simp: runJavaScriptAnalysis_def split: prod.splits option.splits sum.splits)

theorem sentiment_counts_partition_witness:
  "positive_count analysis3 + negative_count analysis3 + neutral_count analysis3 = 3
   \<and> analyzed_news_count analysis3 = 3
   \<and> count_bucket example_env Positive (analyzed_news analysis3) = 1
   \<and> count_bucket example_env Negative (analyzed_news analysis3) = 1
   \<and> count_bucket example_env Neutral (analyzed_news analysis3) = 1
   \<and> 0 \<le> overall_score analysis3"
  using sentiment_counts_partition [OF collect_payload_run]
  by (simp add: analysis3_def)

section \<open>Rooms and late joiners\<close>












end
